theory Spec2Isabelle
  imports Main "HOL-Library.Sublist"
begin

section \<open>The chat program of \<^verbatim>\<open>main.go\<close>\<close>

text \<open>
  The program is one Go file: a terminal chat over UDP, written against the bubbletea
  runtime (an Elm-style loop of \<^verbatim>\<open>Init\<close>, \<^verbatim>\<open>Update\<close>, \<^verbatim>\<open>View\<close>). The functions of
  the file are embedded below one by one. Every function of another package that they
  call (the widgets, \<^verbatim>\<open>strings\<close>, \<^verbatim>\<open>encoding/json\<close>, \<^verbatim>\<open>time\<close>, \<^verbatim>\<open>net\<close>, lipgloss) is a
  field of the record \<open>lib\<close>, which every embedded function takes as its first
  argument: the theorems then hold whatever those functions compute.
\<close>

subsection \<open>Data\<close>

type_synonym bytes = string

text \<open>A Go \<^verbatim>\<open>error\<close> value, as the text its \<^verbatim>\<open>Error()\<close> method returns.\<close>

datatype error = Err string

text \<open>
  \<^verbatim>\<open>time.Time\<close>: an instant (seconds and nanoseconds since the Unix epoch) together
  with the zone offset, in seconds east of UTC, in which it is displayed.
\<close>

record Time =
  unixSec :: int
  nanos :: nat
  zone :: int

text \<open>\<^verbatim>\<open>type msgPacket struct { Sender, Text string; Timestamp time.Time }\<close>\<close>

record msgPacket =
  Sender :: string
  Text :: string
  Timestamp :: Time

text \<open>\<^verbatim>\<open>net.UDPAddr\<close>, and \<^verbatim>\<open>*net.UDPConn\<close> as the descriptor of the socket.\<close>

record UDPAddr =
  IP :: string
  Port :: nat

type_synonym UDPConn = nat

text \<open>
  \<^verbatim>\<open>tea.KeyMsg\<close>: the key types \<open>Update\<close> tells apart, and one constructor for all the
  others.
\<close>

datatype KeyType = KeyCtrlC | KeyEsc | KeyEnter | KeyRunes | KeyOther nat

record Key =
  Type :: KeyType
  Runes :: string
  Alt :: bool

text \<open>
  \<^verbatim>\<open>tea.Msg\<close>: a key, the two messages the file declares (\<^verbatim>\<open>udpMsg{data, addr}\<close> and
  \<^verbatim>\<open>errMsg{err}\<close>), and any other message of the runtime (a cursor blink, a window
  size), which \<open>Update\<close> only hands to the widgets.
\<close>

datatype Msg =
    KeyMsg Key
  | udpMsg bytes UDPAddr
  | errMsg error
  | OtherMsg string

text \<open>
  \<^verbatim>\<open>tea.Cmd\<close>: the commands the file returns. \<open>noCmd\<close> is the \<^verbatim>\<open>nil\<close> command, and
  \<open>WidgetCmd\<close> a command that a widget's own \<^verbatim>\<open>Update\<close> returned.
\<close>

datatype Cmd =
    noCmd
  | Quit
  | Blink
  | listenForMessages "UDPConn option"
  | WidgetCmd nat
  | Batch "Cmd list"

text \<open>
  The calls on the socket, as the program's trace records them. \<open>Update\<close> makes one
  itself: \<^verbatim>\<open>m.conn.WriteToUDP(data, addr)\<close>, with the connection and the address as they
  are at the call (either may be \<^verbatim>\<open>nil\<close>). \<open>Close\<close> is the call that releases the socket;
  no function of the file makes it, and it is here so that this can be said.
\<close>

datatype net_call =
    WriteToUDP "UDPConn option" bytes "UDPAddr option"
  | Close "UDPConn option"

text \<open>\<^verbatim>\<open>lipgloss.Style\<close>, as far as the file sets it.\<close>

record Style =
  Foreground :: string
  Bold :: bool

definition gray :: string where "gray = ''#808080''"
definition green :: string where "green = ''#00FF00''"
definition magenta :: string where "magenta = ''#FF00FF''"
definition white :: string where "white = ''#FFFFFF''"

definition timestampStyle :: Style where
  "timestampStyle = \<lparr>Foreground = gray, Bold = False\<rparr>"

definition usernameStyle :: Style where
  "usernameStyle = \<lparr>Foreground = green, Bold = True\<rparr>"

definition remoteUsernameStyle :: Style where
  "remoteUsernameStyle = \<lparr>Foreground = magenta, Bold = True\<rparr>"

definition messageStyle :: Style where
  "messageStyle = \<lparr>Foreground = white, Bold = False\<rparr>"

text \<open>
  \<^verbatim>\<open>type model struct\<close>. The two widgets are values of the types \<open>'ta\<close>
  (\<^verbatim>\<open>textarea.Model\<close>) and \<open>'vp\<close> (\<^verbatim>\<open>viewport.Model\<close>); \<open>conn\<close> is \<open>None\<close> for the
  \<^verbatim>\<open>nil\<close> pointer and \<open>err\<close> is \<open>None\<close> for the \<^verbatim>\<open>nil\<close> error.
\<close>

record ('ta, 'vp) model =
  viewport :: 'vp
  textarea :: 'ta
  messages :: "string list"
  username :: string
  remoteAddr :: string
  conn :: "UDPConn option"
  err :: "error option"

subsection \<open>The functions of other packages\<close>

text \<open>
  Each field stands for one function that the file calls and does not define.
  A function that returns \<^verbatim>\<open>(value, error)\<close> returns a sum, \<open>Inl\<close> the error.
\<close>

record ('ta, 'vp) lib =
  textarea_New :: 'ta
    \<comment> \<open>\<^verbatim>\<open>textarea.New()\<close> after the settings of \<^verbatim>\<open>initialModel\<close> (placeholder, focus, limits)\<close>
  textarea_zero :: 'ta
    \<comment> \<open>the zero \<^verbatim>\<open>textarea.Model\<close>\<close>
  ta_Update :: "'ta \<Rightarrow> Msg \<Rightarrow> 'ta \<times> nat"
    \<comment> \<open>\<^verbatim>\<open>m.textarea.Update(msg)\<close>: the widget, and its command by a number\<close>
  ta_Value :: "'ta \<Rightarrow> string"
  ta_Reset :: "'ta \<Rightarrow> 'ta"
  ta_View :: "'ta \<Rightarrow> string"
  viewport_New :: "nat \<Rightarrow> nat \<Rightarrow> 'vp"
  viewport_zero :: 'vp
    \<comment> \<open>the zero \<^verbatim>\<open>viewport.Model\<close>\<close>
  vp_Update :: "'vp \<Rightarrow> Msg \<Rightarrow> 'vp \<times> nat"
    \<comment> \<open>\<^verbatim>\<open>m.viewport.Update(msg)\<close>, likewise\<close>
  vp_SetContent :: "'vp \<Rightarrow> string \<Rightarrow> 'vp"
  vp_GotoBottom :: "'vp \<Rightarrow> 'vp"
  vp_View :: "'vp \<Rightarrow> string"
  TrimSpace :: "string \<Rightarrow> string"
  Marshal :: "msgPacket \<Rightarrow> error + bytes"
    \<comment> \<open>\<^verbatim>\<open>json.Marshal(packet)\<close>\<close>
  Unmarshal :: "bytes \<Rightarrow> error + msgPacket"
    \<comment> \<open>\<^verbatim>\<open>json.Unmarshal(data, &packet)\<close> into a zero \<^verbatim>\<open>msgPacket\<close>\<close>
  Format :: "Time \<Rightarrow> string \<Rightarrow> string"
    \<comment> \<open>\<^verbatim>\<open>t.Format(layout)\<close>\<close>
  Render :: "Style \<Rightarrow> string \<Rightarrow> string"
    \<comment> \<open>\<^verbatim>\<open>style.Render(s)\<close>\<close>
  ResolveUDPAddr :: "string \<Rightarrow> error + UDPAddr"
    \<comment> \<open>\<^verbatim>\<open>net.ResolveUDPAddr("udp", s)\<close>\<close>
  ListenUDP :: "nat \<Rightarrow> error + UDPConn"
    \<comment> \<open>\<^verbatim>\<open>net.ListenUDP("udp", &net.UDPAddr{Port: p})\<close>\<close>
  addr_String :: "UDPAddr \<Rightarrow> string"
  screen :: "string \<Rightarrow> string \<Rightarrow> string \<Rightarrow> string"
    \<comment> \<open>the lipgloss layout of \<^verbatim>\<open>View\<close>: peer address, viewport and input area to a frame\<close>

subsection \<open>Small functions of the standard library, written out\<close>

definition port :: nat where "port = 9999"

definition newline :: string where "newline = [CHR 0x0A]"

text \<open>\<^verbatim>\<open>strings.Join(elems, sep)\<close>\<close>

fun Join :: "string list \<Rightarrow> string \<Rightarrow> string" where
  "Join [] sep = []"
| "Join [x] sep = x"
| "Join (x # y # ys) sep = x @ sep @ Join (y # ys) sep"

text \<open>The verb \<^verbatim>\<open>%d\<close> of \<^verbatim>\<open>fmt.Sprintf\<close> on a number that is not negative.\<close>

definition digit :: "nat \<Rightarrow> char" where
  "digit d = ''0123456789'' ! d"

fun decimal :: "nat \<Rightarrow> string" where
  "decimal n = (if n < 10 then [digit n] else decimal (n div 10) @ [digit (n mod 10)])"

declare decimal.simps [simp del]

text \<open>The text of an error: its \<^verbatim>\<open>Error()\<close>, which the verb \<^verbatim>\<open>%v\<close> prints.\<close>

fun Error :: "error \<Rightarrow> string" where
  "Error (Err s) = s"

subsection \<open>\<^verbatim>\<open>model.Update\<close>\<close>

text \<open>
  \<open>Update lib now m msg\<close> is \<^verbatim>\<open>m.Update(msg)\<close> when \<^verbatim>\<open>time.Now()\<close> reads \<open>now\<close>: the
  model and the command that the Go function returns, and the calls it made on the
  socket, in order. Both widgets see every message first; then the message is dispatched
  on its type, in the order of the source.
\<close>

definition Update ::
  "('ta, 'vp) lib \<Rightarrow> Time \<Rightarrow> ('ta, 'vp) model \<Rightarrow> Msg \<Rightarrow> ('ta, 'vp) model \<times> Cmd \<times> net_call list"
where
  "Update lib now m0 msg =
    (let (ta, tiCmd) = ta_Update lib (textarea m0) msg;
         (vp, vpCmd) = vp_Update lib (viewport m0) msg;
         m = m0\<lparr>textarea := ta, viewport := vp\<rparr>;
         batch = Batch [WidgetCmd tiCmd, WidgetCmd vpCmd]
     in case msg of
          KeyMsg k \<Rightarrow>
            (case Type k of
               KeyCtrlC \<Rightarrow> (m, Quit, [])
             | KeyEsc \<Rightarrow> (m, Quit, [])
             | KeyEnter \<Rightarrow>
                 (let text = TrimSpace lib (ta_Value lib (textarea m)) in
                  if text \<noteq> [] then
                    (let packet = \<lparr>Sender = username m, Text = text, Timestamp = now\<rparr>;
                         data = (case Marshal lib packet of Inl e \<Rightarrow> [] | Inr d \<Rightarrow> d);
                         addr = (case ResolveUDPAddr lib (remoteAddr m) of
                                   Inl e \<Rightarrow> None | Inr a \<Rightarrow> Some a);
                         sent = [WriteToUDP (conn m) data addr];
                         ts = Render lib timestampStyle
                                (Format lib (Timestamp packet) ''15:04:05'');
                         user = Render lib usernameStyle (username m);
                         msgText = Render lib messageStyle text;
                         msgs = messages m @ [ts @ '' '' @ user @ '': '' @ msgText]
                     in (m\<lparr>messages := msgs,
                           viewport := vp_GotoBottom lib
                             (vp_SetContent lib (viewport m) (Join msgs newline)),
                           textarea := ta_Reset lib (textarea m)\<rparr>,
                         batch, sent))
                  else (m, batch, []))
             | _ \<Rightarrow> (m, batch, []))
        | udpMsg data addr \<Rightarrow>
            (case Unmarshal lib data of
               Inr packet \<Rightarrow>
                 (let ts = Render lib timestampStyle
                             (Format lib (Timestamp packet) ''15:04:05'');
                      user = Render lib remoteUsernameStyle (Sender packet);
                      msgText = Render lib messageStyle (Text packet);
                      msgs = messages m @ [ts @ '' '' @ user @ '': '' @ msgText]
                  in (m\<lparr>messages := msgs,
                        viewport := vp_GotoBottom lib
                          (vp_SetContent lib (viewport m) (Join msgs newline))\<rparr>,
                      listenForMessages (conn m), []))
             | Inl e \<Rightarrow> (m, listenForMessages (conn m), []))
        | errMsg e \<Rightarrow> (m\<lparr>err := Some e\<rparr>, noCmd, [])
        | OtherMsg s \<Rightarrow> (m, batch, []))"

subsection \<open>\<^verbatim>\<open>initialModel\<close>, \<^verbatim>\<open>Init\<close> and \<^verbatim>\<open>View\<close>\<close>

text \<open>The zero value of \<^verbatim>\<open>model\<close>, which \<^verbatim>\<open>model{err: err}\<close> fills but for \<open>err\<close>.\<close>

definition zero_model :: "('ta, 'vp) lib \<Rightarrow> ('ta, 'vp) model" where
  "zero_model lib =
    \<lparr>viewport = viewport_zero lib, textarea = textarea_zero lib, messages = [],
     username = [], remoteAddr = [], conn = None, err = None\<rparr>"

text \<open>
  \<^verbatim>\<open>initialModel(username, remoteAddr)\<close>: the peer is resolved first, then the socket is
  bound; either failure returns at once with the model that holds the error alone.
\<close>

definition initialModel :: "('ta, 'vp) lib \<Rightarrow> string \<Rightarrow> string \<Rightarrow> ('ta, 'vp) model" where
  "initialModel lib user remote =
    (let ta = textarea_New lib;
         vp = vp_SetContent lib (viewport_New lib 76 16)
                ''Connected. Waiting for messages...''
     in case ResolveUDPAddr lib (remote @ '':'' @ decimal port) of
          Inl e \<Rightarrow> (zero_model lib)\<lparr>err := Some e\<rparr>
        | Inr addr \<Rightarrow>
            (case ListenUDP lib port of
               Inl e \<Rightarrow> (zero_model lib)\<lparr>err := Some e\<rparr>
             | Inr c \<Rightarrow>
                 \<lparr>viewport = vp, textarea = ta, messages = [], username = user,
                  remoteAddr = addr_String lib addr, conn = Some c, err = None\<rparr>))"

text \<open>\<^verbatim>\<open>m.Init()\<close>: \<^verbatim>\<open>tea.Batch(textarea.Blink, listenForMessages(m.conn))\<close>\<close>

definition Init :: "('ta, 'vp) model \<Rightarrow> Cmd" where
  "Init m = Batch [Blink, listenForMessages (conn m)]"

text \<open>
  The message that the command \<^verbatim>\<open>listenForMessages(conn)\<close> returns when it is run, from
  what \<^verbatim>\<open>conn.ReadFromUDP(buf)\<close> finds: an error, or a datagram and the address it came
  from. The buffer has 1024 bytes, and \<^verbatim>\<open>buf[:n]\<close> is what of the datagram fits it.
\<close>

definition listened :: "error + bytes \<times> UDPAddr \<Rightarrow> Msg" where
  "listened r = (case r of Inl e \<Rightarrow> errMsg e | Inr (d, a) \<Rightarrow> udpMsg (take 1024 d) a)"


subsection \<open>The runtime\<close>

text \<open>
  Modelled from the spec: the events that reach the controller. The runtime that collects
  them is bubbletea, a library and not a file of the repository; the spec (section 4.4)
  names the sources: "Local input event", "Datagram-received event" and "Transport error
  event". Each event carries the reading of the clock when it is processed. The
  runtime has messages of its own as well (a cursor blink, a window size), and it can
  fail itself.
\<close>

datatype event =
    Keyboard Time Key
  | Datagram Time bytes UDPAddr
  | ReadError Time error
  | Internal Time string
  | Failure error

text \<open>
  Modelled from the spec: what the runtime does with a command that \<open>Update\<close> or \<open>Init\<close>
  returned. \<open>arms\<close> counts the reads on the socket that the command starts (the spec's
  "re-arm receive"), \<open>quits\<close> tells whether it holds \<^verbatim>\<open>tea.Quit\<close> (the spec's "quit
  request"); a batch does what its commands do.
\<close>

fun arms :: "Cmd \<Rightarrow> nat" where
  "arms (listenForMessages c) = 1"
| "arms (Batch cs) = sum_list (map arms cs)"
| "arms noCmd = 0"
| "arms Quit = 0"
| "arms Blink = 0"
| "arms (WidgetCmd n) = 0"

fun quits :: "Cmd \<Rightarrow> bool" where
  "quits Quit = True"
| "quits (Batch cs) = list_ex quits cs"
| "quits noCmd = False"
| "quits Blink = False"
| "quits (listenForMessages c) = False"
| "quits (WidgetCmd n) = False"

text \<open>
  Modelled from the spec: the message an event becomes, when it becomes one, and the
  number of reads left pending. The spec (section 4.2): each receive "yields exactly one
  datagram" and "must be re-invoked after every successful receive to continue
  listening". The message itself is the one of the file's \<^verbatim>\<open>listenForMessages\<close>
  (\<open>listened\<close> above). With no read pending nothing is taken from the socket. What a read on the \<^verbatim>\<open>nil\<close> connection does is not fixed here: it is an event like
  any other, a failed read or a failure of the runtime.
\<close>

fun deliver :: "nat \<Rightarrow> event \<Rightarrow> (Time \<times> Msg \<times> nat) option" where
  "deliver k (Keyboard now key) = Some (now, KeyMsg key, k)"
| "deliver k (Internal now s) = Some (now, OtherMsg s, k)"
| "deliver k (Datagram now d a) =
     (if k = 0 then None else Some (now, listened (Inr (d, a)), k - 1))"
| "deliver k (ReadError now e) =
     (if k = 0 then None else Some (now, listened (Inl e), k - 1))"
| "deliver k (Failure e) = None"

text \<open>
  Modelled from the spec: how \<^verbatim>\<open>p.Run()\<close> stands once the events are used up. It is still
  waiting for the next event, with the model and the number of reads pending (the spec's
  state \<^verbatim>\<open>Running\<close>), or it has returned the model and an error or none (the spec's
  \<^verbatim>\<open>Terminating\<close>).
\<close>

datatype ('ta, 'vp) outcome =
    Waiting "('ta, 'vp) model" nat
  | Returned "('ta, 'vp) model" "error option"

text \<open>
  Modelled from the spec: \<^verbatim>\<open>tea.Program.Run\<close>, the loop of the bubbletea runtime, which
  is a library and not a file of the repository. The spec (sections 4.4 and 5) has the
  events "processed strictly one at a time in arrival order", each handed to the single
  update cycle; and after the quit request "no further events are processed and the
  process exits". \<open>eventLoop lib m k evs\<close> runs the model \<open>m\<close> with \<open>k\<close> reads pending
  over the events \<open>evs\<close>, and returns how the run stands and the calls made on the
  socket.
\<close>

fun eventLoop ::
  "('ta, 'vp) lib \<Rightarrow> ('ta, 'vp) model \<Rightarrow> nat \<Rightarrow> event list \<Rightarrow> ('ta, 'vp) outcome \<times> net_call list"
where
  "eventLoop lib m k [] = (Waiting m k, [])"
| "eventLoop lib m k (Failure e # evs) = (Returned m (Some e), [])"
| "eventLoop lib m k (ev # evs) =
     (case deliver k ev of
        None \<Rightarrow> eventLoop lib m k evs
      | Some (now, msg, k') \<Rightarrow>
          (case Update lib now m msg of
             (m', cmd, calls) \<Rightarrow>
               if quits cmd then (Returned m' None, calls)
               else (case eventLoop lib m' (k' + arms cmd) evs of
                       (out, calls') \<Rightarrow> (out, calls @ calls'))))"

text \<open>
  Modelled from the spec: \<^verbatim>\<open>p.Run()\<close> on the model \<open>m\<close>. The command of \<open>Init\<close> is started
  (the spec's "perpetual background listen operation"), then the loop runs.
\<close>

definition Run ::
  "('ta, 'vp) lib \<Rightarrow> ('ta, 'vp) model \<Rightarrow> event list \<Rightarrow> ('ta, 'vp) outcome \<times> net_call list"
where
  "Run lib m evs = eventLoop lib m (arms (Init m)) evs"

subsection \<open>\<^verbatim>\<open>main\<close>\<close>

text \<open>
  What a run of the process shows from outside: what \<^verbatim>\<open>main\<close> itself printed on
  standard output, the exit code (\<open>None\<close> while the process is still running), and the
  calls made on the socket.
\<close>

record process =
  stdout :: string
  exitCode :: "nat option"
  network :: "net_call list"

definition usage :: string where
  "usage = ''Usage: chat <username> <remote-address>'' @ newline
         @ ''Example: chat alice 100.64.0.2'' @ newline"

text \<open>
  \<^verbatim>\<open>main\<close> with the arguments \<open>args\<close> (\<^verbatim>\<open>os.Args\<close>, the program's name first) and the
  events \<open>evs\<close>. The model that \<open>initialModel\<close> returns goes to the runtime as it is; the
  exit code is 1 where \<^verbatim>\<open>os.Exit(1)\<close> is called, and 0 where \<^verbatim>\<open>main\<close> returns.
\<close>

definition main :: "('ta, 'vp) lib \<Rightarrow> string list \<Rightarrow> event list \<Rightarrow> process" where
  "main lib args evs =
    (if length args < 3 then \<lparr>stdout = usage, exitCode = Some 1, network = []\<rparr>
     else
       (let user = args ! 1;
            remote = args ! 2
        in case Run lib (initialModel lib user remote) evs of
             (Returned m (Some e), calls) \<Rightarrow>
               \<lparr>stdout = ''Error: '' @ Error e @ newline, exitCode = Some 1, network = calls\<rparr>
           | (Returned m None, calls) \<Rightarrow>
               \<lparr>stdout = [], exitCode = Some 0, network = calls\<rparr>
           | (Waiting m k, calls) \<Rightarrow>
               \<lparr>stdout = [], exitCode = None, network = calls\<rparr>))"

text \<open>
  A sequence of calls of \<open>Update\<close>, each on the model the one before returned: the run of
  the controller over any messages whatever, with the clock's reading at each.
\<close>

fun updates :: "('ta, 'vp) lib \<Rightarrow> ('ta, 'vp) model \<Rightarrow> (Time \<times> Msg) list \<Rightarrow> ('ta, 'vp) model" where
  "updates lib m [] = m"
| "updates lib m ((now, msg) # rest) = updates lib (fst (Update lib now m msg)) rest"

subsection \<open>One library, for running the program on examples\<close>

text \<open>
  A small instance of \<open>lib\<close>, used only to evaluate the program on concrete inputs. The
  text area is its value: typed runes are added at its end, and enter leaves it as it
  is (the file disables the key that inserts a line break). The viewport is its content.
  Styles render to the text itself, as lipgloss does when the terminal has no colours, and
  times are formatted in the one layout the file uses. The codec is \<^verbatim>\<open>encoding/json\<close> on
  the three packets of the examples and fails on everything else, and the resolver knows
  the one peer of the examples.
\<close>

definition isSpace :: "char \<Rightarrow> bool" where
  "isSpace c = (c \<in> set [CHR 0x09, CHR 0x0A, CHR 0x0B, CHR 0x0C, CHR 0x0D, CHR 0x20])"

definition trim :: "string \<Rightarrow> string" where
  "trim s = rev (dropWhile isSpace (rev (dropWhile isSpace s)))"

definition pad2 :: "nat \<Rightarrow> string" where
  "pad2 n = [digit (n div 10 mod 10), digit (n mod 10)]"

text \<open>The layout \<^verbatim>\<open>15:04:05\<close>: hour, minute and second of the day in the time's zone.\<close>

definition clock :: "Time \<Rightarrow> string" where
  "clock t =
    (let s = nat ((unixSec t + zone t) mod 86400)
     in pad2 (s div 3600) @ '':'' @ pad2 (s mod 3600 div 60) @ '':'' @ pad2 (s mod 60))"

definition noon :: Time where
  "noon = \<lparr>unixSec = 1704112496, nanos = 0, zone = 0\<rparr>"

definition midnight :: Time where
  "midnight = \<lparr>unixSec = 1704067200, nanos = 0, zone = 0\<rparr>"

text \<open>The three packets of the examples, and the bytes \<^verbatim>\<open>encoding/json\<close> has for each.\<close>

definition hello :: msgPacket where
  "hello = \<lparr>Sender = ''alice'', Text = ''hello'', Timestamp = noon\<rparr>"

definition hi :: msgPacket where
  "hi = \<lparr>Sender = ''bob'', Text = ''hi'', Timestamp = midnight\<rparr>"

definition blank :: msgPacket where
  "blank = \<lparr>Sender = ''bob'', Text = [], Timestamp = midnight\<rparr>"

definition hello_json :: bytes where
  \<open>hello_json = ''{"sender":"alice","text":"hello","timestamp":"2024-01-01T12:34:56Z"}''\<close>

definition hi_json :: bytes where
  \<open>hi_json = ''{"sender":"bob","text":"hi","timestamp":"2024-01-01T00:00:00Z"}''\<close>

definition blank_json :: bytes where
  \<open>blank_json = ''{"sender":"bob","text":"","timestamp":"2024-01-01T00:00:00Z"}''\<close>

definition wire :: "(msgPacket \<times> bytes) list" where
  "wire = [(hello, hello_json), (hi, hi_json), (blank, blank_json)]"

definition peer :: UDPAddr where
  "peer = \<lparr>IP = ''100.64.0.2'', Port = 9999\<rparr>"

definition exampleLib :: "(string, string) lib" where
  "exampleLib =
    \<lparr>textarea_New = [],
     textarea_zero = [],
     ta_Update = (\<lambda>t msg.
        case msg of
          KeyMsg k \<Rightarrow> (if Type k = KeyRunes then t @ Runes k else t, 0)
        | _ \<Rightarrow> (t, 0)),
     ta_Value = (\<lambda>t. t),
     ta_Reset = (\<lambda>t. []),
     ta_View = (\<lambda>t. t),
     viewport_New = (\<lambda>w h. []),
     viewport_zero = [],
     vp_Update = (\<lambda>v msg. (v, 0)),
     vp_SetContent = (\<lambda>v s. s),
     vp_GotoBottom = (\<lambda>v. v),
     vp_View = (\<lambda>v. v),
     TrimSpace = trim,
     Marshal = (\<lambda>p.
        case map_of wire p of
          Some d \<Rightarrow> Inr d
        | None \<Rightarrow> Inl (Err ''json: unsupported value'')),
     Unmarshal = (\<lambda>d.
        case map_of (map prod.swap wire) d of
          Some p \<Rightarrow> Inr p
        | None \<Rightarrow> Inl (Err ''invalid character'')),
     Format = (\<lambda>t layout. clock t),
     Render = (\<lambda>st s. s),
     ResolveUDPAddr = (\<lambda>s.
        if s = ''100.64.0.2:9999'' then Inr peer
        else Inl (Err (''lookup '' @ s @ '': no such host''))),
     ListenUDP = (\<lambda>p. Inr 3),
     addr_String = (\<lambda>a. IP a @ '':'' @ decimal (Port a)),
     screen = (\<lambda>a v t. a @ newline @ v @ newline @ t)\<rparr>"

text \<open>An address that is not the peer's.\<close>

definition stranger :: UDPAddr where
  "stranger = \<lparr>IP = ''203.0.113.7'', Port = 9999\<rparr>"


text \<open>The keys of the examples, and the session of alice with the peer.\<close>

definition enter :: Key where
  "enter = \<lparr>Type = KeyEnter, Runes = [], Alt = False\<rparr>"

definition esc :: Key where
  "esc = \<lparr>Type = KeyEsc, Runes = [], Alt = False\<rparr>"


definition typed :: "string \<Rightarrow> Key" where
  "typed s = \<lparr>Type = KeyRunes, Runes = s, Alt = False\<rparr>"

definition session :: "(string, string) model" where
  "session = initialModel exampleLib ''alice'' ''100.64.0.2''"

text \<open>Alice has typed a line, with blanks around it.\<close>

definition typing :: "(string, string) model" where
  "typing = session\<lparr>textarea := ''  hello ''\<rparr>"

text \<open>
  Messages for \<open>Update\<close>, one after the other: alice types and sends a line, a datagram
  that is not JSON and one from bob come in, a read fails, and alice presses enter on the
  empty input.
\<close>

definition talk :: "(Time \<times> Msg) list" where
  "talk = [(noon, KeyMsg (typed ''hello'')), (noon, KeyMsg enter),
           (noon, udpMsg ''not json'' peer), (midnight, udpMsg hi_json peer),
           (noon, errMsg (Err ''read udp: use of closed network connection'')),
           (noon, KeyMsg enter)]"






subsection \<open>Names for the parts of what \<open>Update\<close> returns\<close>

text \<open>
  The model once both widgets have seen the message (the first two statements of
  \<open>Update\<close>), and the command \<^verbatim>\<open>tea.Batch(tiCmd, vpCmd)\<close> of its last line.
\<close>

definition widgets :: "('ta, 'vp) lib \<Rightarrow> ('ta, 'vp) model \<Rightarrow> Msg \<Rightarrow> ('ta, 'vp) model" where
  "widgets lib m msg =
    m\<lparr>textarea := fst (ta_Update lib (textarea m) msg),
      viewport := fst (vp_Update lib (viewport m) msg)\<rparr>"

definition batch :: "('ta, 'vp) lib \<Rightarrow> ('ta, 'vp) model \<Rightarrow> Msg \<Rightarrow> Cmd" where
  "batch lib m msg =
    Batch [WidgetCmd (snd (ta_Update lib (textarea m) msg)),
           WidgetCmd (snd (vp_Update lib (viewport m) msg))]"

text \<open>
  The line that both branches build with \<^verbatim>\<open>fmt.Sprintf("%s %s: %s", ts, user, msgText)\<close>,
  for the style \<open>st\<close> of the sender's name.
\<close>

definition line :: "('ta, 'vp) lib \<Rightarrow> Style \<Rightarrow> Time \<Rightarrow> string \<Rightarrow> string \<Rightarrow> string" where
  "line lib st t who what =
    Render lib timestampStyle (Format lib t ''15:04:05'') @ '' ''
      @ Render lib st who @ '': '' @ Render lib messageStyle what"

text \<open>The model with the transcript \<open>msgs\<close>, shown in the viewport from its end.\<close>

definition shown :: "('ta, 'vp) lib \<Rightarrow> ('ta, 'vp) model \<Rightarrow> string list \<Rightarrow> ('ta, 'vp) model" where
  "shown lib m msgs =
    m\<lparr>messages := msgs,
      viewport := vp_GotoBottom lib (vp_SetContent lib (viewport m) (Join msgs newline))\<rparr>"

text \<open>The buffer that \<open>Update\<close> reads on a key: the text area's value after that key.\<close>

definition input :: "('ta, 'vp) lib \<Rightarrow> ('ta, 'vp) model \<Rightarrow> Key \<Rightarrow> string" where
  "input lib m k = ta_Value lib (fst (ta_Update lib (textarea m) (KeyMsg k)))"


text \<open>The events that come from the socket, and the model a run stands at.\<close>

fun inbound :: "event \<Rightarrow> bool" where
  "inbound (Datagram now d a) = True"
| "inbound (ReadError now e) = True"
| "inbound (Keyboard now k) = False"
| "inbound (Internal now s) = False"
| "inbound (Failure e) = False"

fun model_of :: "('ta, 'vp) outcome \<Rightarrow> ('ta, 'vp) model" where
  "model_of (Waiting m k) = m"
| "model_of (Returned m e) = m"

section \<open>What \<open>Update\<close> returns, branch by branch\<close>

lemma listened_simps [simp]:
  "listened (Inl e) = errMsg e"
  "listened (Inr (d, a)) = udpMsg (take 1024 d) a"
  by (simp_all add: listened_def)

lemma Update_errMsg:
  "Update lib now m (errMsg e) = ((widgets lib m (errMsg e))\<lparr>err := Some e\<rparr>, noCmd, [])"
  by (simp add: Update_def widgets_def case_prod_beta)

lemma Update_OtherMsg:
  "Update lib now m (OtherMsg s) = (widgets lib m (OtherMsg s), batch lib m (OtherMsg s), [])"
  by (simp add: Update_def widgets_def batch_def case_prod_beta)

lemma Update_quit:
  "Type k = KeyCtrlC \<or> Type k = KeyEsc \<Longrightarrow>
   Update lib now m (KeyMsg k) = (widgets lib m (KeyMsg k), Quit, [])"
  by (auto simp add: Update_def widgets_def case_prod_beta)

lemma Update_key_other:
  "Type k = KeyRunes \<or> Type k = KeyOther n \<Longrightarrow>
   Update lib now m (KeyMsg k) = (widgets lib m (KeyMsg k), batch lib m (KeyMsg k), [])"
  by (auto simp add: Update_def widgets_def batch_def case_prod_beta)

lemma Update_enter_empty:
  "Type k = KeyEnter \<Longrightarrow> TrimSpace lib (input lib m k) = [] \<Longrightarrow>
   Update lib now m (KeyMsg k) = (widgets lib m (KeyMsg k), batch lib m (KeyMsg k), [])"
  by (simp add: Update_def widgets_def batch_def input_def case_prod_beta)

lemma Update_enter_text:
  "Type k = KeyEnter \<Longrightarrow> TrimSpace lib (input lib m k) = text \<Longrightarrow> text \<noteq> [] \<Longrightarrow>
   Update lib now m (KeyMsg k) =
     ((shown lib (widgets lib m (KeyMsg k))
         (messages m @ [line lib usernameStyle now (username m) text]))
        \<lparr>textarea := ta_Reset lib (textarea (widgets lib m (KeyMsg k)))\<rparr>,
      batch lib m (KeyMsg k),
      [WriteToUDP (conn m)
         (case Marshal lib \<lparr>Sender = username m, Text = text, Timestamp = now\<rparr> of
            Inl e \<Rightarrow> [] | Inr d \<Rightarrow> d)
         (case ResolveUDPAddr lib (remoteAddr m) of Inl e \<Rightarrow> None | Inr a \<Rightarrow> Some a)])"
  by (simp add: Update_def widgets_def batch_def shown_def line_def input_def
      case_prod_beta Let_def)

lemma Update_udp_bad:
  "Unmarshal lib data = Inl e \<Longrightarrow>
   Update lib now m (udpMsg data addr) =
     (widgets lib m (udpMsg data addr), listenForMessages (conn m), [])"
  by (simp add: Update_def widgets_def case_prod_beta)

lemma Update_udp_ok:
  "Unmarshal lib data = Inr p \<Longrightarrow>
   Update lib now m (udpMsg data addr) =
     (shown lib (widgets lib m (udpMsg data addr))
        (messages m @ [line lib remoteUsernameStyle (Timestamp p) (Sender p) (Text p)]),
      listenForMessages (conn m), [])"
  by (simp add: Update_def widgets_def shown_def line_def case_prod_beta Let_def)

text \<open>The widgets' own updates leave every other field of the model as it was.\<close>

lemma widgets_fields [simp]:
  "messages (widgets lib m msg) = messages m"
  "username (widgets lib m msg) = username m"
  "remoteAddr (widgets lib m msg) = remoteAddr m"
  "conn (widgets lib m msg) = conn m"
  "err (widgets lib m msg) = err m"
  by (simp_all add: widgets_def)

lemma shown_fields [simp]:
  "messages (shown lib m msgs) = msgs"
  "username (shown lib m msgs) = username m"
  "remoteAddr (shown lib m msgs) = remoteAddr m"
  "conn (shown lib m msgs) = conn m"
  "err (shown lib m msgs) = err m"
  "textarea (shown lib m msgs) = textarea m"
  by (simp_all add: shown_def)

section \<open>The commands of \<open>Update\<close> and the loop of the runtime\<close>

text \<open>
  Only the branch for a datagram starts a read, only a quit key returns \<^verbatim>\<open>tea.Quit\<close>,
  and a call of \<open>Update\<close> adds at most one line at the end of the transcript.
\<close>

lemma arms_Update:
  "arms (fst (snd (Update lib now m msg))) = (case msg of udpMsg d a \<Rightarrow> 1 | _ \<Rightarrow> 0)"
  by (auto simp: Update_def case_prod_beta Let_def split: Msg.splits KeyType.splits sum.splits)

lemma quits_Update:
  "quits (fst (snd (Update lib now m msg))) =
     (case msg of KeyMsg k \<Rightarrow> Type k = KeyCtrlC \<or> Type k = KeyEsc | _ \<Rightarrow> False)"
  by (auto simp: Update_def case_prod_beta Let_def split: Msg.splits KeyType.splits sum.splits)

lemma messages_Update:
  "\<exists>new. messages (fst (Update lib now m msg)) = messages m @ new \<and> length new \<le> 1"
  by (auto simp: Update_def case_prod_beta Let_def split: Msg.splits KeyType.splits sum.splits)

lemma messages_updates:
  "prefix (messages m) (messages (updates lib m evs))"
proof (induction evs arbitrary: m)
  case Nil
  show ?case by simp
next
  case (Cons ev evs)
  obtain now msg where ev: "ev = (now, msg)" by (cases ev)
  obtain new where "messages (fst (Update lib now m msg)) = messages m @ new"
    using messages_Update by blast
  then have "prefix (messages m) (messages (fst (Update lib now m msg)))"
    by simp
  also have "prefix \<dots> (messages (updates lib (fst (Update lib now m msg)) evs))"
    by (rule Cons.IH)
  finally show ?case by (simp add: ev)
qed

lemma eventLoop_step:
  "deliver k ev = Some (now, msg, k') \<Longrightarrow>
   eventLoop lib m k (ev # evs) =
     (if quits (fst (snd (Update lib now m msg)))
      then (Returned (fst (Update lib now m msg)) None, snd (snd (Update lib now m msg)))
      else (fst (eventLoop lib (fst (Update lib now m msg))
                   (k' + arms (fst (snd (Update lib now m msg)))) evs),
            snd (snd (Update lib now m msg))
              @ snd (eventLoop lib (fst (Update lib now m msg))
                   (k' + arms (fst (snd (Update lib now m msg)))) evs)))"
  by (cases ev) (auto simp: case_prod_beta split: if_splits)

lemma eventLoop_skip:
  "deliver k ev = None \<Longrightarrow> \<forall>e. ev \<noteq> Failure e \<Longrightarrow>
   eventLoop lib m k (ev # evs) = eventLoop lib m k evs"
  by (cases ev) (auto split: if_splits)

lemma eventLoop_no_reads:
  "eventLoop lib m 0 evs = eventLoop lib m 0 (filter (\<lambda>ev. \<not> inbound ev) evs)"
proof (induction evs arbitrary: m)
  case Nil
  show ?case by simp
next
  case (Cons ev evs)
  show ?case
  proof (cases ev)
    case (Keyboard now key)
    have "deliver 0 ev = Some (now, KeyMsg key, 0)" by (simp add: Keyboard)
    then show ?thesis
      using Cons.IH by (simp add: Keyboard eventLoop_step arms_Update del: eventLoop.simps)
  next
    case (Internal now s)
    have "deliver 0 ev = Some (now, OtherMsg s, 0)" by (simp add: Internal)
    then show ?thesis
      using Cons.IH by (simp add: Internal eventLoop_step arms_Update del: eventLoop.simps)
  next
    case (Datagram now d a)
    then show ?thesis using Cons.IH by simp
  next
    case (ReadError now e)
    then show ?thesis using Cons.IH by simp
  next
    case (Failure e)
    then show ?thesis by simp
  qed
qed

lemma eventLoop_append:
  "eventLoop lib m k pre = (Waiting m' k', calls) \<Longrightarrow>
   eventLoop lib m k (pre @ evs) =
     (fst (eventLoop lib m' k' evs), calls @ snd (eventLoop lib m' k' evs))"
proof (induction pre arbitrary: m k calls)
  case Nil
  then show ?case by simp
next
  case (Cons ev pre)
  show ?case
  proof (cases "deliver k ev")
    case None
    show ?thesis
    proof (cases "\<exists>e. ev = Failure e")
      case True
      then show ?thesis using Cons.prems by auto
    next
      case False
      then have "eventLoop lib m k (ev # pre) = eventLoop lib m k pre"
        and "eventLoop lib m k (ev # pre @ evs) = eventLoop lib m k (pre @ evs)"
        using None by (simp_all add: eventLoop_skip)
      then show ?thesis using Cons.IH Cons.prems by simp
    qed
  next
    case (Some t)
    obtain now msg k2 where t: "t = (now, msg, k2)" by (cases t)
    let ?u = "Update lib now m msg"
    have d: "deliver k ev = Some (now, msg, k2)" using Some t by simp
    have nq: "\<not> quits (fst (snd ?u))"
      using Cons.prems by (auto simp: eventLoop_step [OF d] split: if_splits)
    obtain c where c: "eventLoop lib (fst ?u) (k2 + arms (fst (snd ?u))) pre = (Waiting m' k', c)"
      and calls: "calls = snd (snd ?u) @ c"
      using Cons.prems nq by (auto simp: eventLoop_step [OF d] prod_eq_iff)
    show ?thesis
      using Cons.IH [OF c] nq
      by (simp add: eventLoop_step [OF d, of lib m "pre @ evs"] calls)
  qed
qed


lemma eventLoop_prefix:
  "prefix (messages m) (messages (model_of (fst (eventLoop lib m k evs))))"
proof (induction evs arbitrary: m k)
  case Nil
  show ?case by simp
next
  case (Cons ev evs)
  show ?case
  proof (cases "deliver k ev")
    case None
    show ?thesis
    proof (cases "\<exists>x. ev = Failure x")
      case True
      then show ?thesis by auto
    next
      case False
      then have "eventLoop lib m k (ev # evs) = eventLoop lib m k evs"
        using None by (simp add: eventLoop_skip)
      then show ?thesis using Cons.IH by simp
    qed
  next
    case (Some t)
    obtain now msg k2 where t: "t = (now, msg, k2)" by (cases t)
    let ?u = "Update lib now m msg"
    have d: "deliver k ev = Some (now, msg, k2)" using Some t by simp
    obtain new where "messages (fst ?u) = messages m @ new"
      using messages_Update by blast
    then have p: "prefix (messages m) (messages (fst ?u))" by simp
    show ?thesis
    proof (cases "quits (fst (snd ?u))")
      case True
      then show ?thesis using p by (simp add: eventLoop_step [OF d])
    next
      case False
      have q: "prefix (messages (fst ?u))
              (messages (model_of (fst (eventLoop lib (fst ?u) (k2 + arms (fst (snd ?u))) evs))))"
        by (rule Cons.IH)
      from prefix_order.order_trans [OF p q] show ?thesis
        using False by (simp add: eventLoop_step [OF d])
    qed
  qed
qed

text \<open>
  What \<open>main\<close> does with three arguments, when its exit code is 1, and a run that a quit
  key ends.
\<close>

lemma decimal_port: "decimal port = ''9999''"
  by (simp add: port_def decimal.simps digit_def)

lemma main_started:
  "main lib [prog, user, remote] evs =
    (case Run lib (initialModel lib user remote) evs of
       (Returned m (Some e), calls) \<Rightarrow>
         \<lparr>stdout = ''Error: '' @ Error e @ newline, exitCode = Some 1, network = calls\<rparr>
     | (Returned m None, calls) \<Rightarrow> \<lparr>stdout = [], exitCode = Some 0, network = calls\<rparr>
     | (Waiting m k, calls) \<Rightarrow> \<lparr>stdout = [], exitCode = None, network = calls\<rparr>)"
  by (simp add: main_def)


lemma Run_quit_first:
  "Type k = KeyEsc \<or> Type k = KeyCtrlC \<Longrightarrow>
   Run lib m (Keyboard now k # evs) = (Returned (widgets lib m (KeyMsg k)) None, [])"
  by (auto simp: Run_def Update_quit)


lemma Run_append:
  "Run lib m0 pre = (Waiting m n, calls) \<Longrightarrow>
   Run lib m0 (pre @ evs) = (fst (eventLoop lib m n evs), calls @ snd (eventLoop lib m n evs))"
  by (simp add: Run_def eventLoop_append)

text \<open>Every call on the socket, in any run, is a \<^verbatim>\<open>WriteToUDP\<close>.\<close>

lemma Update_calls:
  "c \<in> set (snd (snd (Update lib now m msg))) \<Longrightarrow> \<exists>h d a. c = WriteToUDP h d a"
  by (auto simp: Update_def case_prod_beta Let_def
      split: Msg.splits KeyType.splits sum.splits if_splits)

lemma eventLoop_calls:
  "c \<in> set (snd (eventLoop lib m k evs)) \<Longrightarrow> \<exists>h d a. c = WriteToUDP h d a"
proof (induction evs arbitrary: m k)
  case Nil
  then show ?case by simp
next
  case (Cons ev evs)
  show ?case
  proof (cases "deliver k ev")
    case None
    show ?thesis
    proof (cases "\<exists>x. ev = Failure x")
      case True
      then show ?thesis using Cons.prems by auto
    next
      case False
      then have "eventLoop lib m k (ev # evs) = eventLoop lib m k evs"
        using None by (simp add: eventLoop_skip)
      with Cons.prems have "c \<in> set (snd (eventLoop lib m k evs))"
        by simp
      then show ?thesis by (rule Cons.IH)
    qed
  next
    case (Some t)
    obtain now msg k2 where t: "t = (now, msg, k2)" by (cases t)
    let ?u = "Update lib now m msg"
    have d: "deliver k ev = Some (now, msg, k2)" using Some t by simp
    from Cons.prems have "c \<in> set (snd (snd ?u))
        \<or> c \<in> set (snd (eventLoop lib (fst ?u) (k2 + arms (fst (snd ?u))) evs))"
      by (auto simp: eventLoop_step [OF d] split: if_splits)
    then show ?thesis
      using Update_calls Cons.IH by blast
  qed
qed

lemma main_calls:
  "c \<in> set (network (main lib args evs)) \<Longrightarrow> \<exists>h d a. c = WriteToUDP h d a"
proof -
  assume c: "c \<in> set (network (main lib args evs))"
  show ?thesis
  proof (cases "length args < 3")
    case True
    with c show ?thesis by (simp add: main_def)
  next
    case False
    let ?r = "Run lib (initialModel lib (args ! 1) (args ! 2)) evs"
    from False have "network (main lib args evs) = snd ?r"
      by (cases ?r) (auto simp: main_def split: outcome.splits option.splits)
    with c show ?thesis
      by (auto simp: Run_def dest: eventLoop_calls)
  qed
qed

section \<open>The example library, evaluated\<close>

lemma session_eq:
  "session =
    \<lparr>viewport = ''Connected. Waiting for messages...'', textarea = [], messages = [],
     username = ''alice'', remoteAddr = ''100.64.0.2:9999'', conn = Some 3, err = None\<rparr>"
  by (simp add: session_def initialModel_def exampleLib_def decimal_port peer_def port_def
      decimal.simps digit_def)

lemma example_widgets:
  "ta_Update exampleLib t (errMsg e) = (t, 0)"
  "ta_Update exampleLib t (udpMsg d a) = (t, 0)"
  "ta_Update exampleLib t (OtherMsg s) = (t, 0)"
  "ta_Update exampleLib t (KeyMsg k) = (if Type k = KeyRunes then t @ Runes k else t, 0)"
  "vp_Update exampleLib v msg = (v, 0)"
  "ta_Value exampleLib t = t"
  "ta_Reset exampleLib t = []"
  "vp_SetContent exampleLib v s = s"
  "vp_GotoBottom exampleLib v = v"
  "Render exampleLib st s = s"
  "Format exampleLib tm layout = clock tm"
  "TrimSpace exampleLib = trim"
  by (simp_all add: exampleLib_def)

lemma widgets_example:
  "widgets exampleLib m (errMsg e) = m"
  "widgets exampleLib m (udpMsg d a) = m"
  "widgets exampleLib m (OtherMsg s) = m"
  "Type k \<noteq> KeyRunes \<Longrightarrow> widgets exampleLib m (KeyMsg k) = m"
  "Type k = KeyRunes \<Longrightarrow> widgets exampleLib m (KeyMsg k) = m\<lparr>textarea := textarea m @ Runes k\<rparr>"
  by (simp_all add: widgets_def example_widgets)

lemma example_codec:
  "Unmarshal exampleLib hello_json = Inr hello"
  "Unmarshal exampleLib hi_json = Inr hi"
  "Unmarshal exampleLib blank_json = Inr blank"
  "Unmarshal exampleLib ''not json'' = Inl (Err ''invalid character'')"
  "Marshal exampleLib hello = Inr hello_json"
  by (simp_all add: exampleLib_def wire_def hello_json_def hi_json_def blank_json_def
      hello_def hi_def blank_def noon_def midnight_def)

lemma example_net:
  "ResolveUDPAddr exampleLib ''100.64.0.2:9999'' = Inr peer"
  "ListenUDP exampleLib n = Inr 3"
  by (simp_all add: exampleLib_def)

lemma example_clock:
  "clock noon = ''12:34:56''"
  "clock midnight = ''00:00:00''"
  by (simp_all add: clock_def noon_def midnight_def pad2_def digit_def)

lemma example_trim:
  "trim ''hello'' = ''hello''"
  "trim ''  hello '' = ''hello''"
  "trim ''   '' = []"
  by (simp_all add: trim_def isSpace_def)

lemma trim_Nil: "trim [] = []"
  by (simp add: trim_def)

lemma Update_typed:
  "Update exampleLib now m (KeyMsg (typed s)) =
     (m\<lparr>textarea := textarea m @ s\<rparr>, Batch [WidgetCmd 0, WidgetCmd 0], [])"
  by (simp add: Update_key_other [of _ 0] widgets_example typed_def batch_def example_widgets)

lemma Update_hello:
  "username m = ''alice'' \<Longrightarrow> trim (textarea m) = ''hello'' \<Longrightarrow>
   remoteAddr m = ''100.64.0.2:9999'' \<Longrightarrow>
   Update exampleLib noon m (KeyMsg enter) =
     (m\<lparr>messages := messages m @ [''12:34:56 alice: hello''],
        viewport := Join (messages m @ [''12:34:56 alice: hello'']) newline,
        textarea := []\<rparr>,
      Batch [WidgetCmd 0, WidgetCmd 0],
      [WriteToUDP (conn m) hello_json (Some peer)])"
proof -
  assume a: "username m = ''alice''" "trim (textarea m) = ''hello''"
    "remoteAddr m = ''100.64.0.2:9999''"
  have t: "Type enter = KeyEnter" by (simp add: enter_def)
  have i: "TrimSpace exampleLib (input exampleLib m enter) = ''hello''"
    by (simp add: input_def example_widgets enter_def a)
  have h: "\<lparr>Sender = ''alice'', Text = ''hello'', Timestamp = noon\<rparr> = hello"
    by (simp add: hello_def)
  show ?thesis
    by (simp add: Update_enter_text [OF t i] a h example_codec example_net shown_def line_def
        example_widgets example_clock widgets_example t batch_def)
qed

lemma Update_enter_blank:
  "trim (textarea m) = [] \<Longrightarrow>
   Update exampleLib now m (KeyMsg enter) = (m, Batch [WidgetCmd 0, WidgetCmd 0], [])"
proof -
  assume a: "trim (textarea m) = []"
  have t: "Type enter = KeyEnter" by (simp add: enter_def)
  have i: "TrimSpace exampleLib (input exampleLib m enter) = []"
    by (simp add: input_def example_widgets enter_def a)
  show ?thesis
    by (simp add: Update_enter_empty [OF t i] widgets_example t batch_def example_widgets)
qed

lemma Update_hi:
  "Update exampleLib now m (udpMsg hi_json a) =
     (m\<lparr>messages := messages m @ [''00:00:00 bob: hi''],
        viewport := Join (messages m @ [''00:00:00 bob: hi'']) newline\<rparr>,
      listenForMessages (conn m), [])"
  by (simp add: Update_udp_ok [OF example_codec(2)] widgets_example shown_def line_def
      example_widgets hi_def example_clock)

lemma Update_not_json:
  "Update exampleLib now m (udpMsg ''not json'' a) = (m, listenForMessages (conn m), [])"
  by (simp add: Update_udp_bad [OF example_codec(4)] widgets_example)

section \<open>The claims\<close>

subsection \<open>A failed read\<close>

text \<open>
  Claim C7. When a read on the socket fails while the program runs, \<open>Update\<close> gets
  \<^verbatim>\<open>errMsg\<close>: it records the error in the field \<open>err\<close> of the model and returns the
  \<^verbatim>\<open>nil\<close> command, which starts no read and does not quit. In the loop of the runtime,
  with the one read of normal operation pending, the run goes on from the model that
  holds the error with no read pending, and what the socket brings afterwards (a
  datagram, another failure) no longer reaches the program: the run is the same as
  without those events.
\<close>

theorem receive_error_recorded_not_rearmed:
  "Update lib now m (errMsg e) = ((widgets lib m (errMsg e))\<lparr>err := Some e\<rparr>, noCmd, [])
   \<and> err (fst (Update lib now m (errMsg e))) = Some e
   \<and> arms (fst (snd (Update lib now m (errMsg e)))) = 0
   \<and> \<not> quits (fst (snd (Update lib now m (errMsg e))))
   \<and> eventLoop lib m (Suc 0) (ReadError now e # evs) =
       eventLoop lib ((widgets lib m (errMsg e))\<lparr>err := Some e\<rparr>) 0
         (filter (\<lambda>ev. \<not> inbound ev) evs)"
proof -
  have u: "Update lib now m (errMsg e) = ((widgets lib m (errMsg e))\<lparr>err := Some e\<rparr>, noCmd, [])"
    by (rule Update_errMsg)
  have "eventLoop lib m (Suc 0) (ReadError now e # evs) =
        eventLoop lib ((widgets lib m (errMsg e))\<lparr>err := Some e\<rparr>) 0 evs"
    by (simp add: u)
  also have "\<dots> = eventLoop lib ((widgets lib m (errMsg e))\<lparr>err := Some e\<rparr>) 0
                     (filter (\<lambda>ev. \<not> inbound ev) evs)"
    by (rule eventLoop_no_reads)
  finally show ?thesis by (simp add: u)
qed

text \<open>
  In the session of alice the read fails and a datagram follows: the error is in the
  model, and the run waits with no read pending and the transcript still empty.
\<close>

theorem receive_error_witness:
  "Update exampleLib noon session (errMsg (Err ''read udp: use of closed network connection''))
     = (session\<lparr>err := Some (Err ''read udp: use of closed network connection'')\<rparr>, noCmd, [])
   \<and> eventLoop exampleLib session (Suc 0)
        [ReadError noon (Err ''read udp: use of closed network connection''),
         Datagram midnight ''{}'' peer]
     = (Waiting (session\<lparr>err := Some (Err ''read udp: use of closed network connection'')\<rparr>) 0, [])"
  using receive_error_recorded_not_rearmed
    [of exampleLib noon session "Err ''read udp: use of closed network connection''"
        "[Datagram midnight ''{}'' peer]"]
  by (simp add: widgets_example)

subsection \<open>A datagram that does not decode\<close>

text \<open>
  Claim C5. When the bytes of a datagram do not decode, \<open>Update\<close> returns normally with
  no line added to the transcript and with the error, the connection, the user name and
  the peer address as they were; what the two widgets hold is what their own \<^verbatim>\<open>Update\<close>
  made of the message, so the model is the same model when the widgets ignore it. The
  command returned is \<^verbatim>\<open>listenForMessages(m.conn)\<close>: it starts one read and does not
  quit. In the loop of the runtime, a datagram that fits the buffer and does not decode
  leaves as many reads pending as there were, so the datagram after it is read too.
\<close>

theorem malformed_datagram_dropped:
  assumes "Unmarshal lib data = Inl e"
  shows "Update lib now m (udpMsg data addr) =
           (widgets lib m (udpMsg data addr), listenForMessages (conn m), [])
       \<and> messages (fst (Update lib now m (udpMsg data addr))) = messages m
       \<and> err (fst (Update lib now m (udpMsg data addr))) = err m
       \<and> conn (fst (Update lib now m (udpMsg data addr))) = conn m
       \<and> username (fst (Update lib now m (udpMsg data addr))) = username m
       \<and> remoteAddr (fst (Update lib now m (udpMsg data addr))) = remoteAddr m
       \<and> (widgets lib m (udpMsg data addr) = m \<longrightarrow>
            fst (Update lib now m (udpMsg data addr)) = m)
       \<and> arms (fst (snd (Update lib now m (udpMsg data addr)))) = 1
       \<and> \<not> quits (fst (snd (Update lib now m (udpMsg data addr))))
       \<and> (length data \<le> 1024 \<longrightarrow>
            eventLoop lib m (Suc k) (Datagram now data addr # evs) =
            eventLoop lib (widgets lib m (udpMsg data addr)) (Suc k) evs)"
proof -
  have u: "Update lib now m (udpMsg data addr) =
             (widgets lib m (udpMsg data addr), listenForMessages (conn m), [])"
    using assms by (rule Update_udp_bad)
  have "eventLoop lib m (Suc k) (Datagram now data addr # evs) =
        eventLoop lib (widgets lib m (udpMsg data addr)) (Suc k) evs"
    if "length data \<le> 1024"
    using that by (simp add: u)
  then show ?thesis by (simp add: u)
qed

text \<open>
  In the session of alice, a datagram that is not JSON changes nothing, and the
  well-formed datagram after it is shown.
\<close>

theorem malformed_datagram_witness:
  "Unmarshal exampleLib ''not json'' = Inl (Err ''invalid character'')
   \<and> Update exampleLib noon session (udpMsg ''not json'' peer) =
       (session, listenForMessages (Some 3), [])
   \<and> eventLoop exampleLib session (Suc 0)
        [Datagram noon ''not json'' peer, Datagram midnight hi_json peer] =
       (Waiting (session\<lparr>messages := [''00:00:00 bob: hi''], viewport := ''00:00:00 bob: hi''\<rparr>)
          (Suc 0), [])"
proof -
  have bad: "Unmarshal exampleLib ''not json'' = Inl (Err ''invalid character'')"
    by (simp add: example_codec)
  have c: "conn session = Some 3"
    by (simp add: session_eq)
  have len: "length ''not json'' \<le> 1024 \<and> length hi_json \<le> 1024"
    by (simp add: hi_json_def)
  have next_one: "Update exampleLib midnight session (udpMsg hi_json peer) =
      (session\<lparr>messages := [''00:00:00 bob: hi''], viewport := ''00:00:00 bob: hi''\<rparr>,
       listenForMessages (Some 3), [])"
    by (simp add: Update_udp_ok [OF example_codec(2)] widgets_example shown_def line_def
        example_widgets hi_def example_clock session_eq)
  show ?thesis
    using malformed_datagram_dropped [OF bad, of noon session peer 0
        "[Datagram midnight hi_json peer]"] len
    by (simp add: widgets_example c bad next_one)
qed

subsection \<open>Who sent the datagram\<close>

text \<open>
  Claim C10. A datagram that decodes adds its line to the transcript whatever address it
  came from: the line is made of the decoded packet alone, and the transcript is the
  same for any other sender address \<open>addr'\<close> and any other peer address \<open>r\<close> in the
  model. \<open>Update\<close> never compares the two. The command returned starts the next read.
\<close>

theorem any_sender_accepted:
  assumes "Unmarshal lib data = Inr p"
  shows "messages (fst (Update lib now m (udpMsg data addr))) =
           messages m @ [line lib remoteUsernameStyle (Timestamp p) (Sender p) (Text p)]
       \<and> messages (fst (Update lib now m (udpMsg data addr))) =
           messages (fst (Update lib now (m\<lparr>remoteAddr := r\<rparr>) (udpMsg data addr')))
       \<and> snd (Update lib now m (udpMsg data addr)) = (listenForMessages (conn m), [])"
proof -
  let ?l = "line lib remoteUsernameStyle (Timestamp p) (Sender p) (Text p)"
  have here: "Update lib now m (udpMsg data addr) =
      (shown lib (widgets lib m (udpMsg data addr)) (messages m @ [?l]),
       listenForMessages (conn m), [])"
    using assms by (rule Update_udp_ok)
  have there: "Update lib now (m\<lparr>remoteAddr := r\<rparr>) (udpMsg data addr') =
      (shown lib (widgets lib (m\<lparr>remoteAddr := r\<rparr>) (udpMsg data addr')) (messages m @ [?l]),
       listenForMessages (conn m), [])"
    using Update_udp_ok [OF assms, of now "m\<lparr>remoteAddr := r\<rparr>" addr'] by simp
  show ?thesis
    by (simp add: here there)
qed

text \<open>
  A datagram from an address that is not the peer's is shown in the session of alice
  exactly as the same datagram from the peer.
\<close>

theorem any_sender_witness:
  "Unmarshal exampleLib hi_json = Inr hi
   \<and> stranger \<noteq> peer
   \<and> messages (fst (Update exampleLib noon session (udpMsg hi_json stranger))) =
       [''00:00:00 bob: hi'']
   \<and> messages (fst (Update exampleLib noon session (udpMsg hi_json peer))) =
       [''00:00:00 bob: hi'']"
proof -
  have ok: "Unmarshal exampleLib hi_json = Inr hi"
    by (simp add: example_codec)
  have l: "line exampleLib remoteUsernameStyle (Timestamp hi) (Sender hi) (Text hi)
             = ''00:00:00 bob: hi''"
    by (simp add: line_def example_widgets hi_def example_clock)
  have e: "messages session = []"
    by (simp add: session_eq)
  have ne: "stranger \<noteq> peer"
    by (simp add: stranger_def peer_def)
  have same: "session\<lparr>remoteAddr := remoteAddr session\<rparr> = session"
    by simp
  show ?thesis
    using any_sender_accepted [OF ok, of noon session stranger "remoteAddr session" peer] ne
    unfolding same l e by (auto simp: ok)
qed

subsection \<open>The transcript only grows\<close>

text \<open>
  Claim C8. The transcript is append-only. Over any sequence of calls of \<open>Update\<close>, on
  any messages, the transcript at the start is a prefix of the transcript at the end: it
  is no longer than before, and every line it held is still there, at its place and
  unchanged. The same holds for the model at which a run of the runtime's loop stands.
\<close>

theorem transcript_append_only:
  "prefix (messages m) (messages (updates lib m evs))
   \<and> length (messages m) \<le> length (messages (updates lib m evs))
   \<and> (\<forall>i<length (messages m). messages (updates lib m evs) ! i = messages m ! i)
   \<and> prefix (messages m) (messages (model_of (fst (eventLoop lib m k es))))"
proof -
  have p: "prefix (messages m) (messages (updates lib m evs))"
    by (rule messages_updates)
  then obtain new where new: "messages (updates lib m evs) = messages m @ new"
    by (auto simp: prefix_def)
  have "messages (updates lib m evs) ! i = messages m ! i" if "i < length (messages m)" for i
    using that by (simp add: new nth_append)
  moreover have "length (messages m) \<le> length (messages (updates lib m evs))"
    by (simp add: new)
  ultimately show ?thesis
    using p eventLoop_prefix [of m lib k es] by blast
qed

text \<open>
  The messages of \<open>talk\<close> leave two lines in the transcript of alice's session; run a
  second time from there, they add two more after the first two.
\<close>

theorem transcript_witness:
  "messages (updates exampleLib session talk) = [''12:34:56 alice: hello'', ''00:00:00 bob: hi'']
   \<and> messages (updates exampleLib (updates exampleLib session talk) talk) =
       [''12:34:56 alice: hello'', ''00:00:00 bob: hi'',
        ''12:34:56 alice: hello'', ''00:00:00 bob: hi'']
   \<and> prefix (messages (updates exampleLib session talk))
        (messages (updates exampleLib (updates exampleLib session talk) talk))
   \<and> messages (updates exampleLib (updates exampleLib session talk) talk) ! 1 =
       messages (updates exampleLib session talk) ! 1"
proof -
  have one: "\<And>m. username m = ''alice'' \<Longrightarrow> textarea m = [] \<Longrightarrow>
      remoteAddr m = ''100.64.0.2:9999'' \<Longrightarrow>
      messages (updates exampleLib m talk) =
        messages m @ [''12:34:56 alice: hello'', ''00:00:00 bob: hi'']
      \<and> username (updates exampleLib m talk) = ''alice''
      \<and> textarea (updates exampleLib m talk) = []
      \<and> remoteAddr (updates exampleLib m talk) = ''100.64.0.2:9999''"
    by (simp add: talk_def Update_typed Update_hello Update_hi Update_not_json Update_errMsg
        widgets_example Update_enter_blank trim_Nil example_trim)
  have s: "username session = ''alice''" "textarea session = []"
    "remoteAddr session = ''100.64.0.2:9999''" "messages session = []"
    by (simp_all add: session_eq)
  have first: "messages (updates exampleLib session talk) =
      [''12:34:56 alice: hello'', ''00:00:00 bob: hi'']"
    using one [OF s(1-3)] by (simp add: s)
  have second: "messages (updates exampleLib (updates exampleLib session talk) talk) =
      [''12:34:56 alice: hello'', ''00:00:00 bob: hi'',
       ''12:34:56 alice: hello'', ''00:00:00 bob: hi'']"
    using one [of "updates exampleLib session talk"] one [OF s(1-3)] by (simp add: s)
  show ?thesis
    using transcript_append_only [of "updates exampleLib session talk" exampleLib talk 0 "[]"]
    by (simp add: first second)
qed

subsection \<open>Sending a line\<close>




subsection \<open>The format of a line\<close>

text \<open>
  Claim C2 has every line of the transcript as \<^verbatim>\<open>[HH:MM:SS] <sender-label>: <text>\<close>, the
  time in square brackets. The program writes no brackets: alice's line and bob's line
  are the time, a blank, the name, a colon and a blank, and the text.
\<close>

theorem transcript_line_without_brackets:
  "messages (fst (Update exampleLib noon typing (KeyMsg enter))) = [''12:34:56 alice: hello'']
   \<and> ''12:34:56 alice: hello'' \<noteq> ''[12:34:56] alice: hello''
   \<and> messages (fst (Update exampleLib noon session (udpMsg hi_json peer))) = [''00:00:00 bob: hi'']
   \<and> ''00:00:00 bob: hi'' \<noteq> ''[00:00:00] bob: hi''"
  by (simp add: Update_hello Update_hi typing_def session_eq example_trim)

text \<open>
  Claim C2, amended. Every line of the transcript, of local and of remote origin, is built
  by \<^verbatim>\<open>fmt.Sprintf("%s %s: %s", ts, user, msgText)\<close>: the time in the layout \<^verbatim>\<open>15:04:05\<close>
  rendered in the style of timestamps, with no brackets around it, then a blank, the
  sender's name, a colon and a blank, and the text rendered in the style of messages. The
  two origins differ in the style of the sender's name alone (\<open>usernameStyle\<close> for the
  local user, \<open>remoteUsernameStyle\<close> for the sender of a datagram), and these two styles
  are not the same.
\<close>

theorem transcript_line_format:
  "(Type k = KeyEnter \<and> TrimSpace lib (input lib m k) = text \<and> text \<noteq> [] \<longrightarrow>
      messages (fst (Update lib now m (KeyMsg k))) =
        messages m @
          [Render lib timestampStyle (Format lib now ''15:04:05'') @ '' ''
             @ Render lib usernameStyle (username m) @ '': '' @ Render lib messageStyle text])
   \<and> (Unmarshal lib data = Inr p \<longrightarrow>
      messages (fst (Update lib now m (udpMsg data addr))) =
        messages m @
          [Render lib timestampStyle (Format lib (Timestamp p) ''15:04:05'') @ '' ''
             @ Render lib remoteUsernameStyle (Sender p) @ '': ''
             @ Render lib messageStyle (Text p)])
   \<and> usernameStyle \<noteq> remoteUsernameStyle"
proof -
  have local: "messages (fst (Update lib now m (KeyMsg k))) =
        messages m @
          [Render lib timestampStyle (Format lib now ''15:04:05'') @ '' ''
             @ Render lib usernameStyle (username m) @ '': '' @ Render lib messageStyle text]"
    if "Type k = KeyEnter" "TrimSpace lib (input lib m k) = text" "text \<noteq> []"
    using Update_enter_text [OF that, of now] by (simp add: line_def)
  have remote: "messages (fst (Update lib now m (udpMsg data addr))) =
        messages m @
          [Render lib timestampStyle (Format lib (Timestamp p) ''15:04:05'') @ '' ''
             @ Render lib remoteUsernameStyle (Sender p) @ '': ''
             @ Render lib messageStyle (Text p)]"
    if "Unmarshal lib data = Inr p"
    using Update_udp_ok [OF that, of now m addr] by (simp add: line_def)
  have styles: "usernameStyle \<noteq> remoteUsernameStyle"
    by (simp add: usernameStyle_def remoteUsernameStyle_def green_def magenta_def)
  from local remote styles show ?thesis by blast
qed

text \<open>Both kinds of line in alice's session, the styles rendering to the text itself.\<close>

theorem transcript_line_witness:
  "Type enter = KeyEnter
   \<and> TrimSpace exampleLib (input exampleLib typing enter) = ''hello''
   \<and> Unmarshal exampleLib hi_json = Inr hi
   \<and> messages (fst (Update exampleLib noon typing (KeyMsg enter))) =
       [clock noon @ '' '' @ ''alice'' @ '': '' @ ''hello'']
   \<and> messages (fst (Update exampleLib noon typing (udpMsg hi_json peer))) =
       [clock midnight @ '' '' @ ''bob'' @ '': '' @ ''hi'']"
proof -
  have t: "Type enter = KeyEnter"
    by (simp add: enter_def)
  have i: "TrimSpace exampleLib (input exampleLib typing enter) = ''hello''"
    by (simp add: input_def example_widgets enter_def typing_def example_trim)
  have d: "Unmarshal exampleLib hi_json = Inr hi"
    by (simp add: example_codec)
  have m: "messages typing = []" "username typing = ''alice''"
    by (simp_all add: typing_def session_eq)
  show ?thesis
    using transcript_line_format [of enter exampleLib typing "''hello''" noon hi_json hi peer]
      t i d
    by (simp add: m example_widgets hi_def)
qed

subsection \<open>Empty text\<close>

text \<open>
  Claim C9 has every message, sent or received, with a text that is not empty. A
  datagram whose JSON has the empty text decodes, and its line is added to the
  transcript: nothing looks at the text of a decoded packet.
\<close>

theorem remote_empty_text_shown:
  "Unmarshal exampleLib blank_json = Inr blank
   \<and> Text blank = []
   \<and> messages (fst (Update exampleLib noon session (udpMsg blank_json peer))) =
       [''00:00:00 bob: '']"
  by (simp add: Update_udp_ok [OF example_codec(3)] example_codec blank_def line_def
      example_widgets example_clock session_eq)

text \<open>
  Claim C9, amended. A message made at send time has a text that is not empty: a call of
  \<open>Update\<close> on a key that writes to the socket or adds a line to the transcript is a call
  on enter with a trimmed input that is not empty, and the packet it encodes and the line
  it adds carry that input. A message made at decode time is not checked: every payload
  that decodes adds its line, also when its text is empty.
\<close>

theorem text_checked_only_when_sending:
  "(snd (snd (Update lib now m (KeyMsg k))) \<noteq> []
      \<or> messages (fst (Update lib now m (KeyMsg k))) \<noteq> messages m \<longrightarrow>
      Type k = KeyEnter \<and> TrimSpace lib (input lib m k) \<noteq> []
      \<and> snd (snd (Update lib now m (KeyMsg k))) =
          [WriteToUDP (conn m)
             (case Marshal lib \<lparr>Sender = username m, Text = TrimSpace lib (input lib m k),
                                Timestamp = now\<rparr> of
                Inl e \<Rightarrow> [] | Inr d \<Rightarrow> d)
             (case ResolveUDPAddr lib (remoteAddr m) of Inl e \<Rightarrow> None | Inr a \<Rightarrow> Some a)]
      \<and> messages (fst (Update lib now m (KeyMsg k))) =
          messages m @ [line lib usernameStyle now (username m) (TrimSpace lib (input lib m k))])
   \<and> (Unmarshal lib data = Inr p \<longrightarrow>
        messages (fst (Update lib now m (udpMsg data addr))) =
          messages m @ [line lib remoteUsernameStyle (Timestamp p) (Sender p) (Text p)])
   \<and> (Unmarshal lib data = Inr p \<and> Text p = [] \<longrightarrow>
        messages (fst (Update lib now m (udpMsg data addr))) =
          messages m @ [line lib remoteUsernameStyle (Timestamp p) (Sender p) []])"
proof -
  let ?u = "Update lib now m (KeyMsg k)"
  let ?text = "TrimSpace lib (input lib m k)"
  have quiet: "snd (snd ?u) = [] \<and> messages (fst ?u) = messages m"
    if "Type k \<noteq> KeyEnter \<or> ?text = []"
  proof (cases "Type k")
    case KeyEnter
    with that have "?text = []" by simp
    from Update_enter_empty [OF KeyEnter this] show ?thesis by simp
  next
    case KeyCtrlC
    then show ?thesis by (simp add: Update_quit)
  next
    case KeyEsc
    then show ?thesis by (simp add: Update_quit)
  next
    case KeyRunes
    then show ?thesis by (simp add: Update_key_other [of k 0])
  next
    case (KeyOther n)
    then show ?thesis by (simp add: Update_key_other [of k n])
  qed
  have loud: "snd (snd ?u) =
          [WriteToUDP (conn m)
             (case Marshal lib \<lparr>Sender = username m, Text = ?text, Timestamp = now\<rparr> of
                Inl e \<Rightarrow> [] | Inr d \<Rightarrow> d)
             (case ResolveUDPAddr lib (remoteAddr m) of Inl e \<Rightarrow> None | Inr a \<Rightarrow> Some a)]
      \<and> messages (fst ?u) = messages m @ [line lib usernameStyle now (username m) ?text]"
    if "Type k = KeyEnter" "?text \<noteq> []"
    using Update_enter_text [OF that(1) refl that(2), of now] by simp
  have remote: "messages (fst (Update lib now m (udpMsg data addr))) =
          messages m @ [line lib remoteUsernameStyle (Timestamp p) (Sender p) (Text p)]"
    if "Unmarshal lib data = Inr p"
    using Update_udp_ok [OF that, of now m addr] by simp
  show ?thesis
    using quiet loud remote by metis
qed

text \<open>
  In alice's session, enter on the typed line changes the transcript, and the input was
  not empty; the datagram with the empty text adds the line that ends after the colon.
\<close>

theorem text_checked_witness:
  "messages (fst (Update exampleLib noon typing (KeyMsg enter))) \<noteq> messages typing
   \<and> TrimSpace exampleLib (input exampleLib typing enter) = ''hello''
   \<and> Unmarshal exampleLib blank_json = Inr blank \<and> Text blank = []
   \<and> messages (fst (Update exampleLib noon typing (udpMsg blank_json peer))) =
       [''00:00:00 bob: '']"
proof -
  have ch: "messages (fst (Update exampleLib noon typing (KeyMsg enter))) \<noteq> messages typing"
    by (simp add: Update_hello typing_def session_eq example_trim)
  have d: "Unmarshal exampleLib blank_json = Inr blank \<and> Text blank = []"
    by (simp add: example_codec blank_def)
  have l: "line exampleLib remoteUsernameStyle (Timestamp blank) (Sender blank) [] =
      ''00:00:00 bob: ''"
    by (simp add: line_def example_widgets blank_def example_clock)
  have m: "messages typing = []"
    by (simp add: typing_def session_eq)
  have i: "TrimSpace exampleLib (input exampleLib typing enter) = ''hello''"
    by (simp add: input_def example_widgets enter_def typing_def example_trim)
  show ?thesis
    using text_checked_only_when_sending [of exampleLib noon typing enter blank_json blank peer]
      ch d i
    by (simp add: l m)
qed

subsection \<open>A failure at startup\<close>




subsection \<open>Quitting\<close>

text \<open>
  Claim C6 has the socket released when a quit key arrives. On Esc, \<open>Update\<close> returns
  \<^verbatim>\<open>tea.Quit\<close> and the model as it was, the connection still in it, and makes no call on
  the socket; the process then exits with code 0 without the program having closed it.
\<close>

theorem quit_leaves_the_socket_open:
  "Type esc = KeyEsc
   \<and> conn session = Some 3
   \<and> Update exampleLib noon session (KeyMsg esc) = (session, Quit, [])
   \<and> conn (fst (Update exampleLib noon session (KeyMsg esc))) = Some 3
   \<and> main exampleLib [''chat'', ''alice'', ''100.64.0.2''] [Keyboard noon esc] =
       \<lparr>stdout = [], exitCode = Some 0, network = []\<rparr>
   \<and> Close (Some 3) \<notin>
       set (network (main exampleLib [''chat'', ''alice'', ''100.64.0.2''] [Keyboard noon esc]))"
proof -
  have e: "Type esc = KeyEsc"
    by (simp add: esc_def)
  have u: "Update exampleLib noon session (KeyMsg esc) = (session, Quit, [])"
    by (simp add: Update_quit e widgets_example)
  have c: "conn session = Some 3"
    by (simp add: session_eq)
  have r: "main exampleLib [''chat'', ''alice'', ''100.64.0.2''] [Keyboard noon esc] =
       \<lparr>stdout = [], exitCode = Some 0, network = []\<rparr>"
    by (simp add: main_started Run_quit_first e)
  show ?thesis
    by (simp add: e u c r)
qed

text \<open>
  Claim C6, amended. When a quit key (Esc or Ctrl+C) arrives while the program runs,
  \<open>Update\<close> returns \<^verbatim>\<open>tea.Quit\<close> and makes no call on the socket: the connection stays in
  the model as it is, neither closed nor cleared by the program, and is given up only
  when the process exits. The run of the runtime returns at this event with no error,
  whatever events are queued behind it, so none of them is processed; and for a process
  that was still running before the key, \<open>main\<close> exits with code 0 and prints nothing.
  In no run at all, with any arguments and events, does the program close the socket.
\<close>

theorem quit_key_ends_the_run:
  assumes "Type k = KeyEsc \<or> Type k = KeyCtrlC"
  shows "Update lib now m (KeyMsg k) = (widgets lib m (KeyMsg k), Quit, [])
       \<and> conn (fst (Update lib now m (KeyMsg k))) = conn m
       \<and> eventLoop lib m n (Keyboard now k # evs) =
           (Returned (widgets lib m (KeyMsg k)) None, [])
       \<and> (Run lib (initialModel lib user remote) pre = (Waiting m n, calls) \<longrightarrow>
            main lib [prog, user, remote] (pre @ Keyboard now k # evs) =
              \<lparr>stdout = [], exitCode = Some 0, network = calls\<rparr>)
       \<and> Close c \<notin> set (network (main lib args all))"
proof -
  have u: "Update lib now m (KeyMsg k) = (widgets lib m (KeyMsg k), Quit, [])"
    using assms by (auto simp: Update_quit)
  have l: "eventLoop lib m n (Keyboard now k # evs) =
      (Returned (widgets lib m (KeyMsg k)) None, [])"
    by (simp add: u)
  have x: "main lib [prog, user, remote] (pre @ Keyboard now k # evs) =
      \<lparr>stdout = [], exitCode = Some 0, network = calls\<rparr>"
    if "Run lib (initialModel lib user remote) pre = (Waiting m n, calls)"
    by (simp add: main_started Run_append [OF that] u)
  have never: "Close c \<notin> set (network (main lib args all))"
    using main_calls [of "Close c" lib args all] by auto
  from u l x never show ?thesis by simp
qed

text \<open>
  Alice sends a line and presses Esc; the keys typed after Esc change nothing: the process
  exits with code 0, and the one datagram sent is the one of before.
\<close>

theorem quit_key_witness:
  "Type esc = KeyEsc
   \<and> Run exampleLib (initialModel exampleLib ''alice'' ''100.64.0.2'')
        [Keyboard noon (typed ''hello''), Keyboard noon enter] =
       (Waiting (session\<lparr>messages := [''12:34:56 alice: hello''],
                         viewport := ''12:34:56 alice: hello''\<rparr>) (Suc 0),
        [WriteToUDP (Some 3) hello_json (Some peer)])
   \<and> main exampleLib [''chat'', ''alice'', ''100.64.0.2'']
        ([Keyboard noon (typed ''hello''), Keyboard noon enter]
           @ Keyboard noon esc # [Keyboard noon (typed ''more''), Keyboard noon enter]) =
       \<lparr>stdout = [], exitCode = Some 0, network = [WriteToUDP (Some 3) hello_json (Some peer)]\<rparr>"
proof -
  have e: "Type esc = KeyEsc"
    by (simp add: esc_def)
  have r: "Run exampleLib (initialModel exampleLib ''alice'' ''100.64.0.2'')
        [Keyboard noon (typed ''hello''), Keyboard noon enter] =
       (Waiting (session\<lparr>messages := [''12:34:56 alice: hello''],
                         viewport := ''12:34:56 alice: hello''\<rparr>) (Suc 0),
        [WriteToUDP (Some 3) hello_json (Some peer)])"
    by (simp add: session_def [symmetric] session_eq Run_def Init_def Update_typed Update_hello
        example_trim)
  note quit = quit_key_ends_the_run [OF disjI1 [OF e], of exampleLib noon
      "session\<lparr>messages := [''12:34:56 alice: hello''], viewport := ''12:34:56 alice: hello''\<rparr>"
      "Suc 0" "[Keyboard noon (typed ''more''), Keyboard noon enter]"
      "''alice''" "''100.64.0.2''" "[Keyboard noon (typed ''hello''), Keyboard noon enter]"
      "[WriteToUDP (Some 3) hello_json (Some peer)]" "''chat''"]
  from quit r
  have "main exampleLib [''chat'', ''alice'', ''100.64.0.2'']
        ([Keyboard noon (typed ''hello''), Keyboard noon enter]
           @ Keyboard noon esc # [Keyboard noon (typed ''more''), Keyboard noon enter]) =
       \<lparr>stdout = [], exitCode = Some 0, network = [WriteToUDP (Some 3) hello_json (Some peer)]\<rparr>"
    by blast
  with e r show ?thesis by blast
qed

end
